theory Spec2Isabelle
  imports Main "HOL-Library.AList"
begin

section \<open>JavaScript values used by the endpoints\<close>

text \<open>
  Strings are byte strings: the bytes of the JavaScript string in generalised UTF-8, in
  which a lone surrogate, which UTF-8 proper cannot hold, is the three bytes \<open>ED\<close>,
  \<open>A0..BF\<close>, \<open>80..BF\<close> (a surrogate pair is one four-byte sequence). A thrown value is
  either an instance of \<open>Error\<close> (any subclass) with its message, or some other value:
  the handlers only ever ask \<open>error instanceof Error ? error.message : 'Unknown error'\<close>.
  A \<open>Date\<close> can be invalid, in which case \<open>toISOString()\<close> throws a RangeError.
  Timestamps are points of one clock, counted in the unit of the database column.
\<close>

datatype thrown = JsError string | NonError

datatype date = Date int | InvalidDate

type_synonym process_env = "(string \<times> string) list"

text \<open>JavaScript truthiness of \<open>string | undefined\<close>: undefined and the empty string are falsy.\<close>

definition truthy :: "string option \<Rightarrow> bool" where
  "truthy v = (case v of None \<Rightarrow> False | Some s \<Rightarrow> s \<noteq> [])"

text \<open>\<open>email || null\<close>: a missing or empty value is stored as SQL NULL.\<close>

definition or_null :: "string option \<Rightarrow> string option" where
  "or_null v = (if truthy v then v else None)"

text \<open>\<open>v || d\<close> on strings.\<close>

definition js_or :: "string option \<Rightarrow> string \<Rightarrow> string" where
  "js_or v d = (case v of None \<Rightarrow> d | Some s \<Rightarrow> if s = [] then d else s)"

section \<open>The data-access layer (src/app/lib/db.ts)\<close>

text \<open>
  Modelled from the spec: the table declarations (the SQL schema) are not under src/.
  The columns are the ones the queries name together with the spec's data model: a user
  has an internal id, the unique external identifier \<open>uuid\<close>, a display name, an optional
  email and creation/update timestamps; a session has its owning user id (a foreign key
  to the user), the unique session token and the expiry timestamp. The unique index on
  \<open>users.uuid\<close> is also what \<open>ON CONFLICT (uuid)\<close> in \<open>createUser\<close> requires.
\<close>

record user_row =
  u_id :: nat
  u_uuid :: string
  u_name :: string
  u_email :: "string option"
  u_created_at :: int
  u_updated_at :: int

record session_row =
  s_user_id :: nat
  s_session_token :: string
  s_expires_at :: int

record database =
  users :: "user_row list"
  sessions :: "session_row list"

text \<open>The row \<open>getSessionByToken\<close> selects: \<open>s.*, u.uuid, u.name as username, u.email\<close>.\<close>

record session_user =
  j_user_id :: nat
  j_session_token :: string
  j_expires_at :: int
  j_uuid :: string
  j_username :: string
  j_email :: "string option"

definition empty_db :: database where
  "empty_db = \<lparr>users = [], sessions = []\<rparr>"

text \<open>\<open>const DATABASE_URL = process.env.DATABASE_URL\<close>\<close>

definition DATABASE_URL :: "process_env \<Rightarrow> string option" where
  "DATABASE_URL env = map_of env ''DATABASE_URL''"

text \<open>
  \<open>export const sql = DATABASE_URL ? neon(DATABASE_URL) : null as any\<close>: without a
  connection string \<open>sql\<close> is null, and every query written as a tagged template on it
  throws a TypeError. With one, the query runs on the tables.
\<close>

definition sql_is_null :: "process_env \<Rightarrow> bool" where
  "sql_is_null env = (\<not> truthy (DATABASE_URL env))"

definition not_a_function :: thrown where
  "not_a_function = JsError ''sql is not a function''"

definition not_configured :: thrown where
  "not_configured = JsError
     ''DATABASE_URL environment variable is not set. Please configure it in your Vercel environment variables.''"

text \<open>
  Modelled from the spec: the default of the id column is not under src/ (the spec calls
  the id "internal numeric/opaque"). A new row gets an id no row of the table has.
\<close>

definition next_id :: "user_row list \<Rightarrow> nat" where
  "next_id us = Suc (foldr max (map u_id us) 0)"

text \<open>
  \<open>createUser\<close>: \<open>ensureDatabase()\<close> throws first when the connection string is missing.
  Then \<open>INSERT ... ON CONFLICT (uuid) DO UPDATE SET name, email, updated_at RETURNING *\<close>
  and \<open>return result[0]\<close>. The clock value \<open>now\<close> is the database's CURRENT_TIMESTAMP.
\<close>

definition on_conflict_update :: "int \<Rightarrow> string \<Rightarrow> string option \<Rightarrow> user_row \<Rightarrow> user_row" where
  "on_conflict_update now username email u =
     u\<lparr>u_name := username, u_email := or_null email, u_updated_at := now\<rparr>"

definition ensureDatabase :: "process_env \<Rightarrow> thrown + unit" where
  "ensureDatabase env = (if \<not> truthy (DATABASE_URL env) then Inl not_configured else Inr ())"

definition createUser ::
  "process_env \<Rightarrow> int \<Rightarrow> string \<Rightarrow> string \<Rightarrow> string option \<Rightarrow> database
     \<Rightarrow> (thrown + user_row) \<times> database" where
  "createUser env now uuid username email dbs =
     (case ensureDatabase env of
        Inl e \<Rightarrow> (Inl e, dbs)
      | Inr _ \<Rightarrow>
       (case find (\<lambda>u. u_uuid u = uuid) (users dbs) of
        None \<Rightarrow>
          let row = \<lparr>u_id = next_id (users dbs), u_uuid = uuid, u_name = username,
                     u_email = or_null email, u_created_at = now, u_updated_at = now\<rparr>
          in (Inr row, dbs\<lparr>users := users dbs @ [row]\<rparr>)
      | Some old \<Rightarrow>
          (Inr (on_conflict_update now username email old),
           dbs\<lparr>users := map (\<lambda>u. if u_uuid u = uuid
                                 then on_conflict_update now username email u else u)
                            (users dbs)\<rparr>)))"

text \<open>
  \<open>createSession\<close>: the template's arguments are evaluated before the call, so an invalid
  date throws before the null \<open>sql\<close> does. The insert is refused by the foreign key when no
  user has the id, and by the unique index when the token is already stored.
\<close>

definition createSession ::
  "process_env \<Rightarrow> nat \<Rightarrow> string \<Rightarrow> date \<Rightarrow> database \<Rightarrow> (thrown + session_row) \<times> database" where
  "createSession env userId sessionToken expiresAt dbs =
     (case expiresAt of
        InvalidDate \<Rightarrow> (Inl (JsError ''Invalid time value''), dbs)
      | Date t \<Rightarrow>
          if sql_is_null env then (Inl not_a_function, dbs)
          else if userId \<notin> set (map u_id (users dbs))
            then (Inl (JsError ''violates foreign key constraint''), dbs)
          else if sessionToken \<in> set (map s_session_token (sessions dbs))
            then (Inl (JsError ''duplicate key value violates unique constraint''), dbs)
          else
            let row = \<lparr>s_user_id = userId, s_session_token = sessionToken, s_expires_at = t\<rparr>
            in (Inr row, dbs\<lparr>sessions := sessions dbs @ [row]\<rparr>))"

text \<open>
  \<open>getSessionByToken\<close>: sessions joined to their user, filtered by token and by
  \<open>expires_at > CURRENT_TIMESTAMP\<close>; \<open>return result[0] || null\<close>.
\<close>

definition join_row :: "session_row \<Rightarrow> user_row \<Rightarrow> session_user" where
  "join_row s u =
     \<lparr>j_user_id = s_user_id s, j_session_token = s_session_token s,
      j_expires_at = s_expires_at s, j_uuid = u_uuid u, j_username = u_name u,
      j_email = u_email u\<rparr>"

definition select_session :: "int \<Rightarrow> string \<Rightarrow> database \<Rightarrow> session_user list" where
  "select_session now sessionToken dbs =
     concat (map (\<lambda>s. map (join_row s) (filter (\<lambda>u. s_user_id s = u_id u) (users dbs)))
                 (filter (\<lambda>s. s_session_token s = sessionToken \<and> now < s_expires_at s)
                         (sessions dbs)))"

definition getSessionByToken ::
  "process_env \<Rightarrow> int \<Rightarrow> string \<Rightarrow> database \<Rightarrow> (thrown + session_user option) \<times> database" where
  "getSessionByToken env now sessionToken dbs =
     (if sql_is_null env then (Inl not_a_function, dbs)
      else (Inr (case select_session now sessionToken dbs of [] \<Rightarrow> None | r # _ \<Rightarrow> Some r),
            dbs))"

text \<open>\<open>deleteSession\<close>: \<open>DELETE FROM sessions WHERE session_token = ...\<close>.\<close>

definition deleteSession :: "process_env \<Rightarrow> string \<Rightarrow> database \<Rightarrow> (thrown + unit) \<times> database" where
  "deleteSession env sessionToken dbs =
     (if sql_is_null env then (Inl not_a_function, dbs)
      else (Inr (), dbs\<lparr>sessions := filter (\<lambda>s. s_session_token s \<noteq> sessionToken)
                                             (sessions dbs)\<rparr>))"

text \<open>\<open>cleanupExpiredSessions\<close>: \<open>DELETE FROM sessions WHERE expires_at < CURRENT_TIMESTAMP\<close>.\<close>

definition cleanupExpiredSessions :: "process_env \<Rightarrow> int \<Rightarrow> database \<Rightarrow> (thrown + unit) \<times> database" where
  "cleanupExpiredSessions env now dbs =
     (if sql_is_null env then (Inl not_a_function, dbs)
      else (Inr (), dbs\<lparr>sessions := filter (\<lambda>s. \<not> s_expires_at s < now) (sessions dbs)\<rparr>))"

text \<open>
  The constraints of the schema as an invariant of the tables: ids and external ids of
  users are unique, and so are session tokens.
\<close>

definition wf_db :: "database \<Rightarrow> bool" where
  "wf_db dbs \<longleftrightarrow>
     distinct (map u_id (users dbs)) \<and> distinct (map u_uuid (users dbs)) \<and>
     distinct (map s_session_token (sessions dbs))"

text \<open>
  What happens to the store after a session was created: any sequence of calls of the
  functions above. A call \<open>spares\<close> a session token, for a lookup at the clock value
  \<open>now\<close>, unless it deletes that token, inserts it again, or is a cleanup that ran after
  \<open>now\<close>. \<open>session_kept\<close> is what such calls preserve: the tables keep their
  constraints, the owner exists, no other row carries the token, and the row is still
  there while it has not expired.
\<close>

datatype db_call =
    CreateUser int string string "string option"
  | CreateSession nat string date
  | GetSessionByToken int string
  | DeleteSession string
  | CleanupExpiredSessions int

definition perform :: "process_env \<Rightarrow> db_call \<Rightarrow> database \<Rightarrow> database" where
  "perform env c dbs =
     (case c of
        CreateUser now uuid username email \<Rightarrow> snd (createUser env now uuid username email dbs)
      | CreateSession userId sessionToken expiresAt \<Rightarrow>
          snd (createSession env userId sessionToken expiresAt dbs)
      | GetSessionByToken now sessionToken \<Rightarrow> snd (getSessionByToken env now sessionToken dbs)
      | DeleteSession sessionToken \<Rightarrow> snd (deleteSession env sessionToken dbs)
      | CleanupExpiredSessions now \<Rightarrow> snd (cleanupExpiredSessions env now dbs))"

fun perform_all :: "process_env \<Rightarrow> db_call list \<Rightarrow> database \<Rightarrow> database" where
  "perform_all env [] dbs = dbs"
| "perform_all env (c # cs) dbs = perform_all env cs (perform env c dbs)"

fun spares :: "string \<Rightarrow> int \<Rightarrow> db_call \<Rightarrow> bool" where
  "spares tok now (DeleteSession t) = (t \<noteq> tok)"
| "spares tok now (CreateSession userId t expiresAt) = (t \<noteq> tok)"
| "spares tok now (CleanupExpiredSessions t) = (t \<le> now)"
| "spares tok now (CreateUser t uuid username email) = True"
| "spares tok now (GetSessionByToken t other) = True"

definition session_kept :: "int \<Rightarrow> session_row \<Rightarrow> database \<Rightarrow> bool" where
  "session_kept now s dbs \<longleftrightarrow>
     wf_db dbs \<and> s_user_id s \<in> set (map u_id (users dbs)) \<and>
     (\<forall>r \<in> set (sessions dbs). s_session_token r = s_session_token s \<longrightarrow> r = s) \<and>
     (now < s_expires_at s \<longrightarrow> s \<in> set (sessions dbs))"

section \<open>Requests, responses and JavaScript helpers of the endpoint\<close>

text \<open>
  A value of \<open>req.query\<close> is a string, or an array of strings when the key is repeated.
  A request carries its method, its query and its cookies. The response object is
  mutable in the source; here every step returns the updated response.
\<close>

datatype qval = QStr string | QArr "string list"

record request =
  req_method :: string
  req_query :: "(string \<times> qval) list"
  req_cookies :: "(string \<times> string) list"

datatype json = JNull | JBool bool | JNum int | JStr string | JObj "(string \<times> json) list"

datatype body = NoBody | JsonBody json

record response =
  res_status :: nat
  res_headers :: "(string \<times> string) list"
  res_body :: body

definition new_response :: response where
  "new_response = \<lparr>res_status = 200, res_headers = [], res_body = NoBody\<rparr>"

text \<open>\<open>res.setHeader(name, value)\<close> replaces the header of that name.\<close>

definition setHeader :: "string \<Rightarrow> string \<Rightarrow> response \<Rightarrow> response" where
  "setHeader name v res = res\<lparr>res_headers := AList.update name v (res_headers res)\<rparr>"

text \<open>\<open>res.status(code).json(obj)\<close>, \<open>res.status(code).end()\<close> and \<open>res.redirect(code, url)\<close>.\<close>

definition json_reply :: "response \<Rightarrow> nat \<Rightarrow> json \<Rightarrow> response" where
  "json_reply res code obj = res\<lparr>res_status := code, res_body := JsonBody obj\<rparr>"

definition end_reply :: "response \<Rightarrow> nat \<Rightarrow> response" where
  "end_reply res code = res\<lparr>res_status := code\<rparr>"

definition redirect :: "response \<Rightarrow> nat \<Rightarrow> string \<Rightarrow> response" where
  "redirect res code url = (setHeader ''Location'' url res)\<lparr>res_status := code\<rparr>"

definition location :: "response \<Rightarrow> string option" where
  "location res = map_of (res_headers res) ''Location''"


text \<open>Truthiness of a query value: undefined and the empty string are falsy, an array is truthy.\<close>

definition q_truthy :: "qval option \<Rightarrow> bool" where
  "q_truthy v = (case v of None \<Rightarrow> False | Some (QStr s) \<Rightarrow> s \<noteq> [] | Some (QArr xs) \<Rightarrow> True)"

text \<open>\<open>String(v)\<close> and template interpolation: an array is joined with commas.\<close>

fun join_comma :: "string list \<Rightarrow> string" where
  "join_comma [] = []"
| "join_comma [x] = x"
| "join_comma (x # y # ys) = x @ '','' @ join_comma (y # ys)"

definition js_String :: "qval \<Rightarrow> string" where
  "js_String v = (case v of QStr s \<Rightarrow> s | QArr xs \<Rightarrow> join_comma xs)"

text \<open>\<open>error instanceof Error ? error.message : 'Unknown error'\<close>\<close>

definition error_message :: "thrown \<Rightarrow> string" where
  "error_message error = (case error of JsError m \<Rightarrow> m | NonError \<Rightarrow> ''Unknown error'')"

text \<open>
  \<open>encodeURIComponent\<close> (an ECMAScript built-in): it throws a URIError ("URI malformed")
  when the string holds a lone surrogate; otherwise the unreserved characters stay and
  every other byte becomes \<open>%XX\<close> (\<open>percentEncode\<close>).
\<close>

fun lone_surrogate :: "string \<Rightarrow> bool" where
  "lone_surrogate (a # b # cs) =
     ((a = CHR 0xED \<and> (0xA0::nat) \<le> of_char b \<and> of_char b \<le> (0xBF::nat)) \<or>
      lone_surrogate (b # cs))"
| "lone_surrogate cs = False"

definition uriUnreserved :: "char \<Rightarrow> bool" where
  "uriUnreserved c \<longleftrightarrow>
     c \<in> set ''ABCDEFGHIJKLMNOPQRSTUVWXYZabcdefghijklmnopqrstuvwxyz0123456789-_.!~*()'' \<or>
     c = CHR 0x27"

definition hexDigit :: "nat \<Rightarrow> char" where
  "hexDigit n = ''0123456789ABCDEF'' ! (n mod 16)"

definition pctEncode :: "char \<Rightarrow> string" where
  "pctEncode c = [CHR ''%'', hexDigit (of_char c div 16), hexDigit (of_char c)]"

definition percentEncode :: "string \<Rightarrow> string" where
  "percentEncode s = concat (map (\<lambda>c. if uriUnreserved c then [c] else pctEncode c) s)"

definition uri_malformed :: thrown where
  "uri_malformed = JsError ''URI malformed''"

definition encodeURIComponent :: "string \<Rightarrow> thrown + string" where
  "encodeURIComponent s = (if lone_surrogate s then Inl uri_malformed else Inr (percentEncode s))"

section \<open>The collaborators imported from app/lib/auth\<close>

text \<open>
  The module \<open>../app/lib/auth\<close> is not under src/; the endpoint is modelled over any
  implementation of the ten functions it imports. Each of them may throw and may change
  the world outside the handler (the store, the provider, the clock): it maps a world to
  a result or a thrown value, and the world after the call. The two cookie functions
  also take the response object and return it updated; a call that throws leaves the
  response as it was. \<open>createUserSession\<close> returns the \<open>sessionToken\<close> field of its result,
  \<open>verifyStateToken\<close> the \<open>redirectTo\<close> field of the payload, or nothing for null.
\<close>

record google_user =
  g_id :: string
  g_name :: string
  g_email :: "string option"

record auth_user =
  a_uuid :: string
  a_username :: string
  a_email :: "string option"

record 'w auth_lib =
  getGoogleAuthUrl :: "string \<Rightarrow> 'w \<Rightarrow> (thrown + string) \<times> 'w"
  generateStateToken :: "qval \<Rightarrow> 'w \<Rightarrow> (thrown + string) \<times> 'w"
  getSessionToken :: "request \<Rightarrow> 'w \<Rightarrow> (thrown + string option) \<times> 'w"
  destroySession :: "string \<Rightarrow> 'w \<Rightarrow> (thrown + unit) \<times> 'w"
  clearSessionCookie :: "response \<Rightarrow> 'w \<Rightarrow> (thrown + response) \<times> 'w"
  getAuthenticatedUser :: "request \<Rightarrow> 'w \<Rightarrow> (thrown + auth_user option) \<times> 'w"
  getGoogleUserInfo :: "string \<Rightarrow> 'w \<Rightarrow> (thrown + google_user) \<times> 'w"
  createUserSession :: "string \<Rightarrow> string \<Rightarrow> string \<Rightarrow> 'w \<Rightarrow> (thrown + string) \<times> 'w"
  setSessionCookie :: "response \<Rightarrow> string \<Rightarrow> 'w \<Rightarrow> (thrown + response) \<times> 'w"
  verifyStateToken :: "qval option \<Rightarrow> 'w \<Rightarrow> (thrown + string option) \<times> 'w"

section \<open>The auth endpoint (src/api/auth.ts)\<close>

text \<open>
  Every handler is an async function: its result is a response (\<open>Inr\<close>), or a rejection
  (\<open>Inl\<close>) when a value is thrown outside its \<open>try\<close> or inside its \<open>catch\<close>. A rejection
  sends no response.
\<close>

definition internal_error :: "thrown \<Rightarrow> json" where
  "internal_error error =
     JObj [(''error'', JStr ''Internal server error''), (''message'', JStr (error_message error))]"

text \<open>\<open>handleSignIn\<close>: \<open>next = (req.query.next as string) || '/'\<close>.\<close>

definition handleSignIn ::
  "'w auth_lib \<Rightarrow> request \<Rightarrow> response \<Rightarrow> 'w \<Rightarrow> (thrown + response) \<times> 'w" where
  "handleSignIn lib req res w =
     (let next = (case map_of (req_query req) ''next'' of
                    None \<Rightarrow> QStr ''/''
                  | Some v \<Rightarrow> if q_truthy (Some v) then v else QStr ''/'')
      in case generateStateToken lib next w of
           (Inl error, w1) \<Rightarrow> (Inr (json_reply res 500 (internal_error error)), w1)
         | (Inr state, w1) \<Rightarrow>
             (case getGoogleAuthUrl lib state w1 of
                (Inl error, w2) \<Rightarrow> (Inr (json_reply res 500 (internal_error error)), w2)
              | (Inr authUrl, w2) \<Rightarrow> (Inr (redirect res 302 authUrl), w2)))"

text \<open>
  \<open>handleSignOut\<close>. \<open>signOut_try\<close> is the part of the \<open>try\<close> block before the cookie is
  cleared: read the token and, if it is truthy, destroy the session. \<open>signOut_catch\<close> is
  the \<open>catch\<close> block: it clears the cookie again, and a throw there rejects the handler.
\<close>

definition signed_out :: json where
  "signed_out = JObj [(''success'', JBool True), (''message'', JStr ''Signed out successfully'')]"

definition signOut_try :: "'w auth_lib \<Rightarrow> request \<Rightarrow> 'w \<Rightarrow> (thrown + unit) \<times> 'w" where
  "signOut_try lib req w =
     (case getSessionToken lib req w of
        (Inl error, w1) \<Rightarrow> (Inl error, w1)
      | (Inr sessionToken, w1) \<Rightarrow>
          (case sessionToken of
             None \<Rightarrow> (Inr (), w1)
           | Some t \<Rightarrow> if t \<noteq> [] then destroySession lib t w1 else (Inr (), w1)))"

definition signOut_catch ::
  "'w auth_lib \<Rightarrow> response \<Rightarrow> thrown \<Rightarrow> 'w \<Rightarrow> (thrown + response) \<times> 'w" where
  "signOut_catch lib res error w =
     (case clearSessionCookie lib res w of
        (Inl error', w') \<Rightarrow> (Inl error', w')
      | (Inr res', w') \<Rightarrow> (Inr (json_reply res' 500 (internal_error error)), w'))"

definition handleSignOut ::
  "'w auth_lib \<Rightarrow> request \<Rightarrow> response \<Rightarrow> 'w \<Rightarrow> (thrown + response) \<times> 'w" where
  "handleSignOut lib req res w =
     (case signOut_try lib req w of
        (Inl error, w1) \<Rightarrow> signOut_catch lib res error w1
      | (Inr _, w1) \<Rightarrow>
          (case clearSessionCookie lib res w1 of
             (Inl error, w2) \<Rightarrow> signOut_catch lib res error w2
           | (Inr res', w2) \<Rightarrow> (Inr (json_reply res' 200 signed_out), w2)))"

text \<open>\<open>handleStatus\<close>: every path, the \<open>catch\<close> included, answers with status 200.\<close>

definition unauthenticated :: "string option \<Rightarrow> json" where
  "unauthenticated hint =
     JObj ([(''isAuthenticated'', JBool False), (''user'', JNull)] @
           (case hint of None \<Rightarrow> [] | Some m \<Rightarrow> [(''error'', JStr m)]))"

definition json_string_or_null :: "string option \<Rightarrow> json" where
  "json_string_or_null v = (case v of None \<Rightarrow> JNull | Some s \<Rightarrow> JStr s)"

definition authenticated :: "auth_user \<Rightarrow> json" where
  "authenticated user =
     JObj [(''isAuthenticated'', JBool True),
           (''user'', JObj [(''uuid'', JStr (a_uuid user)),
                            (''username'', JStr (a_username user)),
                            (''email'', json_string_or_null (a_email user))]),
           (''trial'', JObj [(''used'', JNum 0), (''remaining'', JNum 999), (''max'', JNum 999)]),
           (''plan_type'', JStr ''unlimited'')]"

definition handleStatus ::
  "'w auth_lib \<Rightarrow> process_env \<Rightarrow> request \<Rightarrow> response \<Rightarrow> 'w \<Rightarrow> (thrown + response) \<times> 'w" where
  "handleStatus lib env req res w =
     (if \<not> truthy (map_of env ''DATABASE_URL'')
      then (Inr (json_reply res 200 (unauthenticated (Some ''Database not configured''))), w)
      else case getAuthenticatedUser lib req w of
             (Inl error, w1) \<Rightarrow>
               (Inr (json_reply res 200 (unauthenticated (Some (error_message error)))), w1)
           | (Inr None, w1) \<Rightarrow> (Inr (json_reply res 200 (unauthenticated None)), w1)
           | (Inr (Some user), w1) \<Rightarrow> (Inr (json_reply res 200 (authenticated user)), w1))"

text \<open>
  \<open>handleCallback\<close>. \<open>callback_catch\<close> is the \<open>catch\<close> block; it redirects on the response
  object as the failed step left it, and when \<open>encodeURIComponent(errorMessage)\<close> throws
  there, the handler rejects. A throw of \<open>encodeURIComponent(String(oauthError))\<close> is
  inside the \<open>try\<close> and goes to the \<open>catch\<close>. The redirect target is
  \<open>stateData?.redirectTo || '/upload'\<close>.
\<close>

definition callback_catch :: "response \<Rightarrow> thrown \<Rightarrow> thrown + response" where
  "callback_catch res error =
     (case encodeURIComponent (error_message error) of
        Inl uriError \<Rightarrow> Inl uriError
      | Inr encoded \<Rightarrow> Inr (redirect res 302 (''/?error='' @ encoded)))"

definition handleCallback ::
  "'w auth_lib \<Rightarrow> request \<Rightarrow> response \<Rightarrow> 'w \<Rightarrow> (thrown + response) \<times> 'w" where
  "handleCallback lib req res w =
     (let code = map_of (req_query req) ''code'';
          state = map_of (req_query req) ''state'';
          oauthError = map_of (req_query req) ''error''
      in case (if q_truthy oauthError then oauthError else None) of
           Some reason \<Rightarrow>
             (case encodeURIComponent (js_String reason) of
                Inl error \<Rightarrow> (callback_catch res error, w)
              | Inr encoded \<Rightarrow> (Inr (redirect res 302 (''/?error='' @ encoded)), w))
         | None \<Rightarrow>
            (case (if q_truthy code then code else None) of
               Some (QStr c) \<Rightarrow>
                 (case getGoogleUserInfo lib c w of
                    (Inl error, w1) \<Rightarrow> (callback_catch res error, w1)
                  | (Inr googleUser, w1) \<Rightarrow>
                     (case (if truthy (g_email googleUser) then g_email googleUser else None) of
                        None \<Rightarrow> (Inr (redirect res 302 ''/?error=no_email''), w1)
                      | Some email \<Rightarrow>
                         (case createUserSession lib (g_id googleUser) (g_name googleUser) email w1 of
                            (Inl error, w2) \<Rightarrow> (callback_catch res error, w2)
                          | (Inr sessionToken, w2) \<Rightarrow>
                             (case setSessionCookie lib res sessionToken w2 of
                                (Inl error, w3) \<Rightarrow> (callback_catch res error, w3)
                              | (Inr res', w3) \<Rightarrow>
                                 (case verifyStateToken lib state w3 of
                                    (Inl error, w4) \<Rightarrow> (callback_catch res' error, w4)
                                  | (Inr stateData, w4) \<Rightarrow>
                                     (Inr (redirect res' 302 (js_or stateData ''/upload'')),
                                      w4))))))
             | _ \<Rightarrow> (Inr (redirect res 302 ''/?error=missing_code''), w)))"

text \<open>
  \<open>handler\<close>: the CORS headers, the OPTIONS preflight, then the switch on
  \<open>action = (req.query.action as string) || 'status'\<close> (\<open>requested_action\<close>). An array
  never equals a case label. The
  handlers are returned without \<open>await\<close>, so the outer \<open>catch\<close> (status 500) sees none of
  their rejections; nothing else in the \<open>try\<close> block throws.
\<close>

definition requested_action :: "request \<Rightarrow> qval" where
  "requested_action req =
     (case map_of (req_query req) ''action'' of
        None \<Rightarrow> QStr ''status''
      | Some v \<Rightarrow> if q_truthy (Some v) then v else QStr ''status'')"

definition cors :: "response \<Rightarrow> response" where
  "cors res =
     setHeader ''Access-Control-Allow-Headers'' ''Content-Type, Authorization''
       (setHeader ''Access-Control-Allow-Methods'' ''GET, POST, OPTIONS''
         (setHeader ''Access-Control-Allow-Origin'' ''*''
           (setHeader ''Access-Control-Allow-Credentials'' ''true'' res)))"

definition method_not_allowed :: "response \<Rightarrow> response" where
  "method_not_allowed res = json_reply res 405 (JObj [(''error'', JStr ''Method not allowed'')])"

definition unknown_action :: "response \<Rightarrow> qval \<Rightarrow> response" where
  "unknown_action res action =
     json_reply res 400 (JObj [(''error'', JStr (''Unknown action: '' @ js_String action))])"

definition handler ::
  "'w auth_lib \<Rightarrow> process_env \<Rightarrow> request \<Rightarrow> response \<Rightarrow> 'w \<Rightarrow> (thrown + response) \<times> 'w" where
  "handler lib env req res0 w =
     (let res = cors res0 in
      if req_method req = ''OPTIONS'' then (Inr (end_reply res 200), w)
      else
        let action = requested_action req
        in if action = QStr ''signin'' then
             (if req_method req \<noteq> ''GET'' then (Inr (method_not_allowed res), w)
              else handleSignIn lib req res w)
           else if action = QStr ''signout'' then
             (if req_method req \<noteq> ''POST'' then (Inr (method_not_allowed res), w)
              else handleSignOut lib req res w)
           else if action = QStr ''status'' then
             (if req_method req \<noteq> ''GET'' then (Inr (method_not_allowed res), w)
              else handleStatus lib env req res w)
           else if action = QStr ''callback'' then
             (if req_method req \<noteq> ''GET'' then (Inr (method_not_allowed res), w)
              else handleCallback lib req res w)
           else (Inr (unknown_action res action), w))"

section \<open>An implementation of the collaborators over the data-access layer\<close>

text \<open>
  Modelled from the spec: the module \<open>app/lib/auth\<close> is not under src/. The instance
  below follows the spec's component design over the functions of db.ts, and is used
  for the concrete scenarios only; the properties of the endpoint are proved for every
  implementation. Its world holds the store, the database clock, the identities the
  provider returns for the authorization codes it accepts, the codes presented to the
  provider so far, the next value of the random generator and the session lifetime.
  The spec fixes neither the cookie's name nor an encoding of the state token: the
  cookie is called \<open>session\<close> here, and the world lists the state tokens that verify at
  this moment with their redirect path, and the token a sign-in issues next.
\<close>

record world =
  db :: database
  clock :: int
  provider :: "(string \<times> google_user) list"
  exchanged :: "string list"
  next_token :: string
  session_ttl :: int
  state_tokens :: "(string \<times> string) list"
  next_state :: string
  auth_endpoint :: string

definition on_db :: "(database \<Rightarrow> (thrown + 'a) \<times> database) \<Rightarrow> world \<Rightarrow> (thrown + 'a) \<times> world" where
  "on_db f w = (case f (db w) of (r, d) \<Rightarrow> (r, w\<lparr>db := d\<rparr>))"

text \<open>Modelled from the spec: "one HTTP-only session cookie carrying the opaque session token".\<close>

definition lib_getSessionToken :: "request \<Rightarrow> world \<Rightarrow> (thrown + string option) \<times> world" where
  "lib_getSessionToken req w = (Inr (map_of (req_cookies req) ''session''), w)"

text \<open>Modelled from the spec: "destroy session server-side", by \<open>deleteSession\<close>.\<close>

definition lib_destroySession :: "process_env \<Rightarrow> string \<Rightarrow> world \<Rightarrow> (thrown + unit) \<times> world" where
  "lib_destroySession env sessionToken = on_db (deleteSession env sessionToken)"

text \<open>Modelled from the spec: the cookie is "cleared by setting an expired/empty value".\<close>

definition lib_clearSessionCookie :: "response \<Rightarrow> world \<Rightarrow> (thrown + response) \<times> world" where
  "lib_clearSessionCookie res w = (Inr (setHeader ''Set-Cookie'' ''session=; Max-Age=0'' res), w)"

text \<open>Modelled from the spec: the callback sets the session cookie to the new session token.\<close>

definition lib_setSessionCookie :: "response \<Rightarrow> string \<Rightarrow> world \<Rightarrow> (thrown + response) \<times> world" where
  "lib_setSessionCookie res sessionToken w =
     (Inr (setHeader ''Set-Cookie'' (''session='' @ sessionToken @ ''; HttpOnly'') res), w)"

text \<open>
  Modelled from the spec: "look up session from cookie; if absent, not-authenticated; if
  present, return public user fields", by \<open>getSessionByToken\<close>.
\<close>

definition public_user :: "session_user \<Rightarrow> auth_user" where
  "public_user r = \<lparr>a_uuid = j_uuid r, a_username = j_username r, a_email = j_email r\<rparr>"

definition lib_getAuthenticatedUser ::
  "process_env \<Rightarrow> request \<Rightarrow> world \<Rightarrow> (thrown + auth_user option) \<times> world" where
  "lib_getAuthenticatedUser env req w =
     (case map_of (req_cookies req) ''session'' of
        None \<Rightarrow> (Inr None, w)
      | Some t \<Rightarrow>
          if t = [] then (Inr None, w)
          else (case on_db (getSessionByToken env (clock w) t) w of
                  (Inl error, w') \<Rightarrow> (Inl error, w')
                | (Inr found, w') \<Rightarrow> (Inr (map_option public_user found), w')))"

text \<open>
  Modelled from the spec: "performs the authorization-code exchange and a subsequent
  identity-info fetch against the provider", failing when the provider rejects the code.
\<close>

definition lib_getGoogleUserInfo :: "string \<Rightarrow> world \<Rightarrow> (thrown + google_user) \<times> world" where
  "lib_getGoogleUserInfo code w =
     (case map_of (provider w) code of
        None \<Rightarrow> (Inl (JsError ''Failed to exchange code''), w\<lparr>exchanged := exchanged w @ [code]\<rparr>)
      | Some identity \<Rightarrow> (Inr identity, w\<lparr>exchanged := exchanged w @ [code]\<rparr>))"

text \<open>
  Modelled from the spec: "upsert user; create session with fresh random token and fixed
  TTL", by \<open>createUser\<close> and \<open>createSession\<close>.
\<close>

definition lib_createUserSession ::
  "process_env \<Rightarrow> string \<Rightarrow> string \<Rightarrow> string \<Rightarrow> world \<Rightarrow> (thrown + string) \<times> world" where
  "lib_createUserSession env googleId name email w =
     (case on_db (createUser env (clock w) googleId name (Some email)) w of
        (Inl error, w1) \<Rightarrow> (Inl error, w1)
      | (Inr user, w1) \<Rightarrow>
          (case on_db (createSession env (u_id user) (next_token w1)
                         (Date (clock w1 + session_ttl w1))) w1 of
             (Inl error, w2) \<Rightarrow> (Inl error, w2)
           | (Inr _, w2) \<Rightarrow> (Inr (next_token w1), w2)))"

text \<open>
  Modelled from the spec: the state token "carrying one payload field, the post-login
  redirect path"; \<open>verify\<close> "returns null (not an exception) on any failure", and the
  authorization URL passes the state through.
\<close>

definition lib_generateStateToken :: "qval \<Rightarrow> world \<Rightarrow> (thrown + string) \<times> world" where
  "lib_generateStateToken next w =
     (Inr (next_state w), w\<lparr>state_tokens := (next_state w, js_String next) # state_tokens w\<rparr>)"

definition lib_verifyStateToken :: "qval option \<Rightarrow> world \<Rightarrow> (thrown + string option) \<times> world" where
  "lib_verifyStateToken state w =
     (Inr (case state of Some (QStr t) \<Rightarrow> map_of (state_tokens w) t | _ \<Rightarrow> None), w)"

definition lib_getGoogleAuthUrl :: "string \<Rightarrow> world \<Rightarrow> (thrown + string) \<times> world" where
  "lib_getGoogleAuthUrl state w =
     (case encodeURIComponent state of
        Inl error \<Rightarrow> (Inl error, w)
      | Inr encoded \<Rightarrow> (Inr (auth_endpoint w @ ''&state='' @ encoded), w))"

definition store_lib :: "process_env \<Rightarrow> world auth_lib" where
  "store_lib env =
     \<lparr>getGoogleAuthUrl = lib_getGoogleAuthUrl,
      generateStateToken = lib_generateStateToken,
      getSessionToken = lib_getSessionToken,
      destroySession = lib_destroySession env,
      clearSessionCookie = lib_clearSessionCookie,
      getAuthenticatedUser = lib_getAuthenticatedUser env,
      getGoogleUserInfo = lib_getGoogleUserInfo,
      createUserSession = lib_createUserSession env,
      setSessionCookie = lib_setSessionCookie,
      verifyStateToken = lib_verifyStateToken\<rparr>"

text \<open>The scenarios of the concrete checks.\<close>

definition env_db :: process_env where
  "env_db = [(''DATABASE_URL'', ''postgres://store'')]"


definition alice :: user_row where
  "alice = \<lparr>u_id = 1, u_uuid = ''g-1'', u_name = ''Alice'', u_email = Some ''alice@example.org'',
            u_created_at = 0, u_updated_at = 0\<rparr>"

definition db_alice :: database where
  "db_alice = \<lparr>users = [alice], sessions = []\<rparr>"

definition with_email :: google_user where
  "with_email = \<lparr>g_id = ''g-1'', g_name = ''Alice'', g_email = Some ''alice@example.org''\<rparr>"

definition without_email :: google_user where
  "without_email = \<lparr>g_id = ''g-2'', g_name = ''Bob'', g_email = Some []\<rparr>"

definition world0 :: world where
  "world0 =
     \<lparr>db = db_alice, clock = 100, provider = [(''abc'', with_email), (''xyz'', without_email)],
      exchanged = [], next_token = ''tok-1'', session_ttl = 1000, state_tokens = [],
      next_state = ''st-1'', auth_endpoint = ''https://accounts.google.com/o/oauth2/v2/auth?x''\<rparr>"

definition get_request :: "(string \<times> qval) list \<Rightarrow> request" where
  "get_request q = \<lparr>req_method = ''GET'', req_query = q, req_cookies = []\<rparr>"


definition session1 :: session_row where
  "session1 = \<lparr>s_user_id = 1, s_session_token = ''tok-1'', s_expires_at = 1100\<rparr>"

definition options_bogus :: request where
  "options_bogus =
     \<lparr>req_method = ''OPTIONS'', req_query = [(''action'', QStr ''bogus'')], req_cookies = []\<rparr>"

definition post_callback :: request where
  "post_callback =
     \<lparr>req_method = ''POST'', req_query = [(''action'', QStr ''callback'')], req_cookies = []\<rparr>"

definition denied_request :: request where
  "denied_request =
     get_request [(''action'', QStr ''callback''), (''error'', QStr ''access_denied''),
                  (''code'', QStr ''abc'')]"

definition empty_error_request :: request where
  "empty_error_request =
     get_request [(''action'', QStr ''callback''), (''error'', QStr []), (''code'', QStr ''abc'')]"

definition no_email_request :: request where
  "no_email_request = get_request [(''action'', QStr ''callback''), (''code'', QStr ''xyz'')]"

definition accepted_request :: request where
  "accepted_request = get_request [(''action'', QStr ''callback''), (''code'', QStr ''abc'')]"



definition session2 :: session_row where
  "session2 = \<lparr>s_user_id = 1, s_session_token = ''tok-2'', s_expires_at = 2000\<rparr>"

definition later_calls :: "db_call list" where
  "later_calls =
     [CreateSession 1 ''tok-2'' (Date 2000), CreateUser 50 ''g-1'' ''Alice B'' None,
      GetSessionByToken 60 ''tok-2'', CleanupExpiredSessions 1000, DeleteSession ''tok-0'']"

definition db_later :: database where
  "db_later =
     \<lparr>users = [alice\<lparr>u_name := ''Alice B'', u_email := None, u_updated_at := 50\<rparr>],
      sessions = [session1, session2]\<rparr>"

text \<open>
  A code exchange that fails with the provider's own text as the message of the error,
  here the lone surrogate U+D800.
\<close>

definition surrogate_message :: string where
  "surrogate_message = [CHR 0xED, CHR 0xA0, CHR 0x80]"

definition garbled_exchange :: "string \<Rightarrow> world \<Rightarrow> (thrown + google_user) \<times> world" where
  "garbled_exchange code w = (Inl (JsError surrogate_message), w\<lparr>exchanged := exchanged w @ [code]\<rparr>)"

definition garbled_lib :: "world auth_lib" where
  "garbled_lib = (store_lib env_db)\<lparr>getGoogleUserInfo := garbled_exchange\<rparr>"

section \<open>The tables keep their constraints\<close>

lemma foldr_max_ge: "x \<in> set xs \<Longrightarrow> x \<le> foldr max xs (0::nat)"
  by (induction xs) auto

lemma next_id_fresh: "next_id us \<notin> set (map u_id us)"
proof
  assume "next_id us \<in> set (map u_id us)"
  then have "next_id us \<le> foldr max (map u_id us) 0" by (rule foldr_max_ge)
  then show False by (simp add: next_id_def)
qed

lemma find_None_uuid: "find (\<lambda>u. u_uuid u = k) us = None \<Longrightarrow> k \<notin> set (map u_uuid us)"
  by (auto simp: find_None_iff)

lemma id_after_update:
  "u_id \<circ> (\<lambda>u. if u_uuid u = k then on_conflict_update t n e u else u) = u_id"
  by (auto simp: fun_eq_iff on_conflict_update_def)

lemma uuid_after_update:
  "u_uuid \<circ> (\<lambda>u. if u_uuid u = k then on_conflict_update t n e u else u) = u_uuid"
  by (auto simp: fun_eq_iff on_conflict_update_def)

lemma wf_empty_db: "wf_db empty_db"
  by (simp add: wf_db_def empty_db_def)

lemma createUser_wf:
  assumes "wf_db dbs" and "createUser env now k n e dbs = (r, dbs')"
  shows "wf_db dbs'"
proof (cases "truthy (DATABASE_URL env)")
  case False
  with assms show ?thesis by (simp add: createUser_def ensureDatabase_def)
next
  case True
  show ?thesis
  proof (cases "find (\<lambda>u. u_uuid u = k) (users dbs)")
    case None
    have "k \<notin> set (map u_uuid (users dbs))" using None by (rule find_None_uuid)
    moreover have "next_id (users dbs) \<notin> set (map u_id (users dbs))" by (rule next_id_fresh)
    ultimately show ?thesis
      using assms True None by (auto simp: createUser_def ensureDatabase_def wf_db_def Let_def)
  next
    case (Some old)
    then show ?thesis
      using assms True
      by (auto simp: createUser_def ensureDatabase_def wf_db_def id_after_update uuid_after_update)
  qed
qed

lemma createSession_wf:
  assumes "wf_db dbs" and "createSession env uid tok ex dbs = (r, dbs')"
  shows "wf_db dbs'"
  using assms
  by (auto simp: createSession_def wf_db_def Let_def split: date.splits if_splits)

lemma deleteSession_wf:
  assumes "wf_db dbs" and "deleteSession env tok dbs = (r, dbs')"
  shows "wf_db dbs'"
  using assms
  by (auto simp: deleteSession_def wf_db_def distinct_map_filter split: if_splits)

lemma filter_unique:
  "distinct (map f xs) \<Longrightarrow> x \<in> set xs \<Longrightarrow> filter (\<lambda>y. f y = f x) xs = [x]"
  by (induction xs) (auto simp: filter_empty_conv intro: rev_image_eqI)

lemma find_Some_mem: "find P xs = Some x \<Longrightarrow> x \<in> set xs \<and> P x"
  by (induction xs) (auto split: if_splits)

lemma filter_single_find: "filter P xs = [x] \<Longrightarrow> find P xs = Some x"
  by (induction xs) (auto split: if_splits)

lemma filter_single_all:
  assumes "filter P xs = [x]" and "y \<in> set xs" and "P y"
  shows "y = x"
proof -
  have "y \<in> set (filter P xs)" using assms(2,3) by simp
  then show ?thesis by (simp add: assms(1))
qed

lemma map_if_fixed:
  "(\<And>u. u \<in> set xs \<Longrightarrow> P u \<Longrightarrow> g u = u) \<Longrightarrow> map (\<lambda>u. if P u then g u else u) xs = xs"
  by (induction xs) auto

section \<open>What the queries return\<close>

lemma filter_map_update:
  "filter (\<lambda>u. u_uuid u = k)
      (map (\<lambda>u. if u_uuid u = k then on_conflict_update t n e u else u) us)
   = map (on_conflict_update t n e) (filter (\<lambda>u. u_uuid u = k) us)"
  by (induction us) (auto simp: on_conflict_update_def)

lemma createUser_conflict:
  assumes "truthy (DATABASE_URL env)" and "find (\<lambda>u. u_uuid u = k) (users dbs) = Some old"
  shows "createUser env now k n e dbs =
           (Inr (on_conflict_update now n e old),
            dbs\<lparr>users := map (\<lambda>u. if u_uuid u = k then on_conflict_update now n e u else u)
                              (users dbs)\<rparr>)"
  using assms by (simp add: createUser_def ensureDatabase_def)

lemma createUser_row:
  assumes "wf_db dbs" and "truthy (DATABASE_URL env)"
  shows "\<exists>r dbs'. createUser env now k n e dbs = (Inr r, dbs') \<and>
           filter (\<lambda>u. u_uuid u = k) (users dbs') = [r] \<and>
           u_uuid r = k \<and> u_name r = n \<and> u_email r = or_null e \<and> u_updated_at r = now \<and>
           sessions dbs' = sessions dbs"
proof (cases "find (\<lambda>u. u_uuid u = k) (users dbs)")
  case None
  then have "k \<notin> set (map u_uuid (users dbs))" by (rule find_None_uuid)
  then have "filter (\<lambda>u. u_uuid u = k) (users dbs) = []"
    by (auto simp: filter_empty_conv)
  then show ?thesis
    using assms(2) None by (simp add: createUser_def ensureDatabase_def Let_def)
next
  case (Some old)
  then have old: "old \<in> set (users dbs)" "u_uuid old = k"
    using find_Some_mem [of "\<lambda>u. u_uuid u = k" "users dbs" old] by auto
  have "distinct (map u_uuid (users dbs))" using assms(1) by (simp add: wf_db_def)
  then have "filter (\<lambda>u. u_uuid u = u_uuid old) (users dbs) = [old]"
    using old(1) by (rule filter_unique)
  then have "filter (\<lambda>u. u_uuid u = k) (users dbs) = [old]" using old(2) by simp
  then show ?thesis
    using createUser_conflict [OF assms(2) Some, of now n e] old(2)
    by (simp add: filter_map_update on_conflict_update_def)
qed

lemma createSession_Inr:
  assumes "createSession env uid tok (Date ex) d0 = (Inr s, d1)"
  shows "\<not> sql_is_null env" and "uid \<in> set (map u_id (users d0))"
    and "tok \<notin> set (map s_session_token (sessions d0))"
    and "s = \<lparr>s_user_id = uid, s_session_token = tok, s_expires_at = ex\<rparr>"
    and "d1 = d0\<lparr>sessions := sessions d0 @ [s]\<rparr>"
  using assms by (auto simp: createSession_def Let_def split: if_splits)

lemma select_absent:
  assumes "tok \<notin> set (map s_session_token (sessions dbs))"
  shows "select_session now tok dbs = []"
proof -
  have "filter (\<lambda>s. s_session_token s = tok \<and> now < s_expires_at s) (sessions dbs) = []"
    using assms by (auto simp: filter_empty_conv)
  then show ?thesis by (simp add: select_session_def)
qed


section \<open>The user store: upsert by external id\<close>

text \<open>
  Claim C2. With the database configured and the tables within their constraints, two
  calls of \<open>createUser\<close> with the same external id both return a row, and afterwards
  exactly one row carries that external id: it has the name of the second call and its
  email (\<open>email || null\<close>, so a missing or empty email is stored as NULL), and the id the
  first call returned. The second call adds no row: ids and external ids of the table
  are the same list as after the first call. Repeating the first call unchanged, at the
  same clock value, leaves the table as it is.
\<close>

theorem createUser_twice_one_row:
  assumes "wf_db d0" and "truthy (DATABASE_URL env)"
  shows "\<exists>r1 d1 r2 d2.
           createUser env t1 k n1 e1 d0 = (Inr r1, d1) \<and>
           createUser env t2 k n2 e2 d1 = (Inr r2, d2) \<and>
           filter (\<lambda>u. u_uuid u = k) (users d1) = [r1] \<and>
           filter (\<lambda>u. u_uuid u = k) (users d2) = [r2] \<and>
           u_uuid r2 = k \<and> u_name r2 = n2 \<and> u_email r2 = or_null e2 \<and> u_id r2 = u_id r1 \<and>
           map u_id (users d2) = map u_id (users d1) \<and>
           map u_uuid (users d2) = map u_uuid (users d1) \<and>
           createUser env t1 k n1 e1 d1 = (Inr r1, d1)"
proof -
  obtain r1 d1 where first: "createUser env t1 k n1 e1 d0 = (Inr r1, d1)"
    and one1: "filter (\<lambda>u. u_uuid u = k) (users d1) = [r1]"
    and r1: "u_uuid r1 = k" "u_name r1 = n1" "u_email r1 = or_null e1" "u_updated_at r1 = t1"
    using createUser_row [OF assms, of t1 k n1 e1] by blast
  have found: "find (\<lambda>u. u_uuid u = k) (users d1) = Some r1"
    using one1 by (rule filter_single_find)
  let ?upd = "on_conflict_update t2 n2 e2"
  let ?d2 = "d1\<lparr>users := map (\<lambda>u. if u_uuid u = k then ?upd u else u) (users d1)\<rparr>"
  have second: "createUser env t2 k n2 e2 d1 = (Inr (?upd r1), ?d2)"
    using assms(2) found by (rule createUser_conflict)
  have one2: "filter (\<lambda>u. u_uuid u = k) (users ?d2) = [?upd r1]"
    by (simp add: filter_map_update one1)
  have ids: "map u_id (users ?d2) = map u_id (users d1)"
    by (simp add: id_after_update)
  have uuids: "map u_uuid (users ?d2) = map u_uuid (users d1)"
    by (simp add: uuid_after_update)
  have same: "on_conflict_update t1 n1 e1 r1 = r1"
    using r1 by (simp add: on_conflict_update_def or_null_def)
  have "\<And>u. u \<in> set (users d1) \<Longrightarrow> u_uuid u = k \<Longrightarrow> on_conflict_update t1 n1 e1 u = u"
    using filter_single_all [OF one1] same by metis
  then have "map (\<lambda>u. if u_uuid u = k then on_conflict_update t1 n1 e1 u else u) (users d1)
               = users d1"
    by (rule map_if_fixed)
  then have again: "createUser env t1 k n1 e1 d1 = (Inr r1, d1)"
    using createUser_conflict [OF assms(2) found, of t1 n1 e1] same by simp
  show ?thesis
    using first second one1 one2 ids uuids again r1(1)
    by (simp add: on_conflict_update_def)
qed

lemma configured_env_db: "truthy (DATABASE_URL env_db)"
  by (simp add: truthy_def DATABASE_URL_def env_db_def)

theorem createUser_twice_one_row_witness:
  "wf_db empty_db \<and> truthy (DATABASE_URL env_db) \<and>
   createUser env_db 0 ''g-1'' ''Alice'' (Some ''alice@example.org'') empty_db
     = (Inr alice, db_alice) \<and>
   createUser env_db 7 ''g-1'' ''Alice B'' (Some []) db_alice
     = (Inr (alice\<lparr>u_name := ''Alice B'', u_email := None, u_updated_at := 7\<rparr>),
        \<lparr>users = [alice\<lparr>u_name := ''Alice B'', u_email := None, u_updated_at := 7\<rparr>],
         sessions = []\<rparr>) \<and>
   (\<exists>r1 d1 r2 d2.
      createUser env_db 0 ''g-1'' ''Alice'' (Some ''alice@example.org'') empty_db = (Inr r1, d1) \<and>
      createUser env_db 7 ''g-1'' ''Alice B'' (Some []) d1 = (Inr r2, d2) \<and>
      filter (\<lambda>u. u_uuid u = ''g-1'') (users d2) = [r2] \<and> u_name r2 = ''Alice B'')"
proof -
  have a: "wf_db empty_db" by (rule wf_empty_db)
  have b: "truthy (DATABASE_URL env_db)" by (rule configured_env_db)
  have c: "createUser env_db 0 ''g-1'' ''Alice'' (Some ''alice@example.org'') empty_db
             = (Inr alice, db_alice)"
    using b by (simp add: createUser_def ensureDatabase_def empty_db_def next_id_def or_null_def
        truthy_def alice_def db_alice_def Let_def)
  have d: "createUser env_db 7 ''g-1'' ''Alice B'' (Some []) db_alice
     = (Inr (alice\<lparr>u_name := ''Alice B'', u_email := None, u_updated_at := 7\<rparr>),
        \<lparr>users = [alice\<lparr>u_name := ''Alice B'', u_email := None, u_updated_at := 7\<rparr>],
         sessions = []\<rparr>)"
    using b by (simp add: createUser_def ensureDatabase_def on_conflict_update_def or_null_def
        truthy_def alice_def db_alice_def)
  have e: "\<exists>r1 d1 r2 d2.
      createUser env_db 0 ''g-1'' ''Alice'' (Some ''alice@example.org'') empty_db = (Inr r1, d1) \<and>
      createUser env_db 7 ''g-1'' ''Alice B'' (Some []) d1 = (Inr r2, d2) \<and>
      filter (\<lambda>u. u_uuid u = ''g-1'') (users d2) = [r2] \<and> u_name r2 = ''Alice B''"
    using createUser_twice_one_row [OF a b, of 0 "''g-1''" "''Alice''" "Some ''alice@example.org''"
        7 "''Alice B''" "Some []"]
    by blast
  show ?thesis using a b c d e by blast
qed

section \<open>The session store: validity until expiry\<close>

lemma createUser_ids_list:
  "\<exists>extra. map u_id (users (snd (createUser env now k n e dbs))) = map u_id (users dbs) @ extra"
proof (cases "truthy (DATABASE_URL env)")
  case False
  then show ?thesis by (simp add: createUser_def ensureDatabase_def)
next
  case True
  show ?thesis
  proof (cases "find (\<lambda>u. u_uuid u = k) (users dbs)")
    case None
    then show ?thesis using True by (simp add: createUser_def ensureDatabase_def Let_def)
  next
    case (Some old)
    then show ?thesis using True
      by (simp add: createUser_def ensureDatabase_def id_after_update)
  qed
qed

lemma createUser_ids:
  "set (map u_id (users dbs)) \<subseteq> set (map u_id (users (snd (createUser env now k n e dbs))))"
proof -
  obtain extra where
    "map u_id (users (snd (createUser env now k n e dbs))) = map u_id (users dbs) @ extra"
    using createUser_ids_list by blast
  then have "set (map u_id (users (snd (createUser env now k n e dbs))))
               = set (map u_id (users dbs) @ extra)"
    by (rule arg_cong)
  then show ?thesis by auto
qed

lemma createUser_sessions: "sessions (snd (createUser env now k n e dbs)) = sessions dbs"
  by (auto simp: createUser_def ensureDatabase_def Let_def split: sum.splits option.splits)

lemma perform_wf: "wf_db dbs \<Longrightarrow> wf_db (perform env c dbs)"
proof (cases c)
  case (CreateUser now k n e)
  assume "wf_db dbs"
  then show ?thesis
    using createUser_wf [of dbs env now k n e] CreateUser
    by (simp add: perform_def) (metis prod.collapse)
next
  case (CreateSession uid t ex)
  assume "wf_db dbs"
  then show ?thesis
    using createSession_wf [of dbs env uid t ex] CreateSession
    by (simp add: perform_def) (metis prod.collapse)
next
  case (GetSessionByToken now t)
  assume "wf_db dbs"
  then show ?thesis using GetSessionByToken by (simp add: perform_def getSessionByToken_def)
next
  case (DeleteSession t)
  assume "wf_db dbs"
  then show ?thesis
    using deleteSession_wf [of dbs env t] DeleteSession
    by (simp add: perform_def) (metis prod.collapse)
next
  case (CleanupExpiredSessions t)
  assume "wf_db dbs"
  then show ?thesis using CleanupExpiredSessions
    by (simp add: perform_def cleanupExpiredSessions_def wf_db_def distinct_map_filter)
qed

lemma perform_kept:
  assumes "spares (s_session_token s) now c" and "session_kept now s dbs"
  shows "session_kept now s (perform env c dbs)"
proof -
  have wf: "wf_db (perform env c dbs)" using assms(2) by (simp add: session_kept_def perform_wf)
  have rest: "s_user_id s \<in> set (map u_id (users (perform env c dbs))) \<and>
     (\<forall>r \<in> set (sessions (perform env c dbs)). s_session_token r = s_session_token s \<longrightarrow> r = s) \<and>
     (now < s_expires_at s \<longrightarrow> s \<in> set (sessions (perform env c dbs)))"
  proof (cases c)
    case (CreateUser t k n e)
    then show ?thesis
      using assms(2) createUser_ids [of dbs env t k n e]
      by (auto simp: perform_def session_kept_def createUser_sessions)
  next
    case (CreateSession uid t ex)
    then show ?thesis
      using assms
      by (auto simp: perform_def session_kept_def createSession_def Let_def split: date.splits)
  next
    case (GetSessionByToken t other)
    then show ?thesis using assms(2) by (simp add: perform_def session_kept_def getSessionByToken_def)
  next
    case (DeleteSession t)
    then show ?thesis
      using assms by (auto simp: perform_def session_kept_def deleteSession_def)
  next
    case (CleanupExpiredSessions t)
    then show ?thesis
      using assms by (auto simp: perform_def session_kept_def cleanupExpiredSessions_def)
  qed
  show ?thesis using wf rest by (simp add: session_kept_def)
qed

lemma perform_all_kept:
  "list_all (spares (s_session_token s) now) cs \<Longrightarrow> session_kept now s dbs
     \<Longrightarrow> session_kept now s (perform_all env cs dbs)"
  by (induction cs arbitrary: dbs) (simp_all add: perform_kept)

lemma filter_conj: "filter (\<lambda>x. P x \<and> Q x) xs = filter Q (filter P xs)"
  by (induction xs) auto

lemma kept_lookup:
  assumes "session_kept now s dbs"
  shows "\<exists>u. filter (\<lambda>v. u_id v = s_user_id s) (users dbs) = [u] \<and>
           select_session now (s_session_token s) dbs
             = (if now < s_expires_at s then [join_row s u] else [])"
proof -
  from assms obtain u where u: "u \<in> set (users dbs)" "u_id u = s_user_id s"
    by (auto simp: session_kept_def)
  have "distinct (map u_id (users dbs))" using assms by (simp add: session_kept_def wf_db_def)
  then have "filter (\<lambda>v. u_id v = u_id u) (users dbs) = [u]" using u(1) by (rule filter_unique)
  then have one: "filter (\<lambda>v. u_id v = s_user_id s) (users dbs) = [u]" using u(2) by simp
  then have one': "filter (\<lambda>v. s_user_id s = u_id v) (users dbs) = [u]"
    by (simp add: eq_commute [of "s_user_id s"])
  have rows: "filter (\<lambda>r. s_session_token r = s_session_token s \<and> now < s_expires_at r) (sessions dbs)
                = (if now < s_expires_at s then [s] else [])"
  proof (cases "now < s_expires_at s")
    case True
    then have "s \<in> set (sessions dbs)" using assms by (simp add: session_kept_def)
    moreover have "distinct (map s_session_token (sessions dbs))"
      using assms by (simp add: session_kept_def wf_db_def)
    ultimately have "filter (\<lambda>r. s_session_token r = s_session_token s) (sessions dbs) = [s]"
      by (simp add: filter_unique)
    then show ?thesis using True by (simp add: filter_conj)
  next
    case False
    then show ?thesis using assms by (auto simp: session_kept_def filter_empty_conv)
  qed
  have "select_session now (s_session_token s) dbs
             = (if now < s_expires_at s then [join_row s u] else [])"
    by (simp add: select_session_def rows one')
  then show ?thesis using one by blast
qed

text \<open>
  Claim C1. Let \<open>createSession\<close> have stored a session for user \<open>uid\<close> with token \<open>tok\<close> and
  expiry \<open>ex\<close>, and let any later calls of the data-access functions follow that spare
  the token (other users and sessions are created, other sessions deleted, expired
  sessions cleaned up no later than the lookup). Then exactly one user has the id
  \<open>uid\<close>, and \<open>getSessionByToken\<close> on \<open>tok\<close> returns, when the clock is strictly before
  \<open>ex\<close>, the row with the session's user id, token and expiry and that user's external
  id, name and email; at or after \<open>ex\<close> it returns null. A token that no row carries gives
  null in every state, the same answer as an expired session.
\<close>

theorem session_valid_until_expiry:
  assumes "wf_db d0" and "createSession env uid tok (Date ex) d0 = (Inr s, d1)"
    and "list_all (spares tok now) later"
  shows "s = \<lparr>s_user_id = uid, s_session_token = tok, s_expires_at = ex\<rparr> \<and>
         (\<exists>u. filter (\<lambda>v. u_id v = uid) (users (perform_all env later d1)) = [u] \<and>
              getSessionByToken env now tok (perform_all env later d1) =
                (Inr (if now < ex
                      then Some \<lparr>j_user_id = uid, j_session_token = tok, j_expires_at = ex,
                                 j_uuid = u_uuid u, j_username = u_name u, j_email = u_email u\<rparr>
                      else None),
                 perform_all env later d1)) \<and>
         (\<forall>t other dbs. other \<notin> set (map s_session_token (sessions dbs)) \<longrightarrow>
              getSessionByToken env t other dbs = (Inr None, dbs))"
proof -
  note c = createSession_Inr [OF assms(2)]
  have s: "s_user_id s = uid" "s_session_token s = tok" "s_expires_at s = ex"
    by (simp_all add: c(4))
  have "wf_db d1" using assms(1,2) by (rule createSession_wf)
  then have "session_kept now s d1"
    using c(2,3) by (auto simp: session_kept_def c(5) s)
  then have "session_kept now s (perform_all env later d1)"
    using assms(3) by (simp add: perform_all_kept s)
  then obtain u where u: "filter (\<lambda>v. u_id v = uid) (users (perform_all env later d1)) = [u]"
    and sel: "select_session now tok (perform_all env later d1)
                = (if now < ex then [join_row s u] else [])"
    using kept_lookup [of now s "perform_all env later d1"] by (auto simp: s)
  have get: "getSessionByToken env now tok (perform_all env later d1) =
                (Inr (if now < ex
                      then Some \<lparr>j_user_id = uid, j_session_token = tok, j_expires_at = ex,
                                 j_uuid = u_uuid u, j_username = u_name u, j_email = u_email u\<rparr>
                      else None),
                 perform_all env later d1)"
    using c(1) by (simp add: getSessionByToken_def sel join_row_def s)
  have absent: "\<forall>t other dbs. other \<notin> set (map s_session_token (sessions dbs)) \<longrightarrow>
              getSessionByToken env t other dbs = (Inr None, dbs)"
    using c(1) by (simp add: getSessionByToken_def select_absent)
  show ?thesis using c(4) u get absent by blast
qed

lemma wf_db_alice: "wf_db db_alice"
  by (simp add: wf_db_def db_alice_def)

lemma not_null_env_db: "\<not> sql_is_null env_db"
  by (simp add: sql_is_null_def configured_env_db)

lemma createSession_alice:
  "createSession env_db 1 ''tok-1'' (Date 1100) db_alice
     = (Inr session1, db_alice\<lparr>sessions := [session1]\<rparr>)"
  using not_null_env_db
  by (simp add: createSession_def db_alice_def alice_def session1_def Let_def)

lemma later_calls_performed:
  "perform_all env_db later_calls (db_alice\<lparr>sessions := [session1]\<rparr>) = db_later"
  using configured_env_db not_null_env_db
  by (simp add: later_calls_def perform_def createSession_def createUser_def ensureDatabase_def
      getSessionByToken_def deleteSession_def cleanupExpiredSessions_def on_conflict_update_def
      or_null_def truthy_def db_alice_def alice_def session1_def session2_def db_later_def Let_def)

theorem session_valid_until_expiry_witness:
  "wf_db db_alice \<and>
   createSession env_db 1 ''tok-1'' (Date 1100) db_alice
     = (Inr session1, db_alice\<lparr>sessions := [session1]\<rparr>) \<and>
   list_all (spares ''tok-1'' 1099) later_calls \<and>
   list_all (spares ''tok-1'' 1100) later_calls \<and>
   perform_all env_db later_calls (db_alice\<lparr>sessions := [session1]\<rparr>) = db_later \<and>
   sessions db_later = [session1, session2] \<and>
   getSessionByToken env_db 1099 ''tok-1'' db_later
     = (Inr (Some \<lparr>j_user_id = 1, j_session_token = ''tok-1'', j_expires_at = 1100,
                     j_uuid = ''g-1'', j_username = ''Alice B'', j_email = None\<rparr>), db_later) \<and>
   getSessionByToken env_db 1100 ''tok-1'' db_later = (Inr None, db_later) \<and>
   getSessionByToken env_db 1099 ''tok-3'' db_later = (Inr None, db_later)"
proof -
  let ?d1 = "db_alice\<lparr>sessions := [session1]\<rparr>"
  have sp: "list_all (spares ''tok-1'' 1099) later_calls" "list_all (spares ''tok-1'' 1100) later_calls"
    by (simp_all add: later_calls_def)
  have other: "''tok-3'' \<notin> set (map s_session_token (sessions db_later))"
    by (simp add: db_later_def session1_def session2_def)
  have users: "users db_later = [alice\<lparr>u_name := ''Alice B'', u_email := None, u_updated_at := 50\<rparr>]"
    by (simp add: db_later_def)
  note t1 = session_valid_until_expiry [OF wf_db_alice createSession_alice sp(1), unfolded later_calls_performed]
  note t2 = session_valid_until_expiry [OF wf_db_alice createSession_alice sp(2), unfolded later_calls_performed]
  obtain u where u: "filter (\<lambda>v. u_id v = 1) (users db_later) = [u]"
    and valid: "getSessionByToken env_db 1099 ''tok-1'' db_later =
                (Inr (if (1099::int) < 1100
                      then Some \<lparr>j_user_id = 1, j_session_token = ''tok-1'', j_expires_at = 1100,
                                 j_uuid = u_uuid u, j_username = u_name u, j_email = u_email u\<rparr>
                      else None), db_later)"
    using t1 by blast
  have "u = alice\<lparr>u_name := ''Alice B'', u_email := None, u_updated_at := 50\<rparr>"
    using u by (simp add: users alice_def)
  then have v: "getSessionByToken env_db 1099 ''tok-1'' db_later
     = (Inr (Some \<lparr>j_user_id = 1, j_session_token = ''tok-1'', j_expires_at = 1100,
                     j_uuid = ''g-1'', j_username = ''Alice B'', j_email = None\<rparr>), db_later)"
    using valid by (simp add: alice_def)
  have e: "getSessionByToken env_db 1100 ''tok-1'' db_later = (Inr None, db_later)"
    using t2 by auto
  have a: "getSessionByToken env_db 1099 ''tok-3'' db_later = (Inr None, db_later)"
    using t1 other by blast
  show ?thesis
    using wf_db_alice createSession_alice sp later_calls_performed v e a
    by (simp add: db_later_def)
qed

section \<open>Facts about responses and encoding\<close>

lemma status_json_reply [simp]: "res_status (json_reply res code obj) = code"
  by (simp add: json_reply_def)

lemma status_redirect [simp]: "res_status (redirect res code url) = code"
  by (simp add: redirect_def setHeader_def)

lemma location_redirect [simp]: "location (redirect res code url) = Some url"
  by (simp add: location_def redirect_def setHeader_def update_conv')

lemma handleStatus_200:
  "\<exists>r w'. handleStatus lib env req res w = (Inr r, w') \<and> res_status r = 200"
  by (auto simp: handleStatus_def split: prod.splits sum.splits option.splits)


lemma body_json_reply [simp]: "res_body (json_reply res code obj) = JsonBody obj"
  by (simp add: json_reply_def)

lemma encode_codes:
  "percentEncode ''missing_code'' = ''missing_code''"
  "percentEncode ''no_email'' = ''no_email''"
  by (simp_all add: percentEncode_def uriUnreserved_def)

lemma encode_malformed: "encodeURIComponent ''URI malformed'' = Inr ''URI%20malformed''"
  by (simp add: encodeURIComponent_def percentEncode_def uriUnreserved_def pctEncode_def
      hexDigit_def)

lemma catch_malformed:
  "callback_catch res uri_malformed = Inr (redirect res 302 ''/?error=URI%20malformed'')"
  by (simp add: callback_catch_def uri_malformed_def error_message_def encode_malformed)

section \<open>Routing of the auth endpoint\<close>

text \<open>
  Claim C10. A request that is not an OPTIONS preflight and whose \<open>action\<close> is missing or
  the empty string is routed as \<open>status\<close>: the action the switch sees is \<open>status\<close>, a GET
  is answered by \<open>handleStatus\<close>, any other method by 405, and the answer is never the
  400 of an unknown action.
\<close>

theorem missing_action_is_status:
  assumes "req_method req \<noteq> ''OPTIONS''" and "\<not> q_truthy (map_of (req_query req) ''action'')"
  shows "requested_action req = QStr ''status'' \<and>
         handler lib env req res w =
           (if req_method req = ''GET'' then handleStatus lib env req (cors res) w
            else (Inr (method_not_allowed (cors res)), w)) \<and>
         (\<exists>r w'. handler lib env req res w = (Inr r, w') \<and>
                  (res_status r = 200 \<or> res_status r = 405))"
proof -
  have a: "requested_action req = QStr ''status''"
    using assms(2) by (auto simp: requested_action_def split: option.splits)
  have h: "handler lib env req res w =
           (if req_method req = ''GET'' then handleStatus lib env req (cors res) w
            else (Inr (method_not_allowed (cors res)), w))"
    using assms(1) by (simp add: handler_def a Let_def)
  obtain r w' where "handleStatus lib env req (cors res) w = (Inr r, w')" "res_status r = 200"
    using handleStatus_200 [of lib env req "cors res" w] by blast
  then have "\<exists>r w'. handler lib env req res w = (Inr r, w') \<and>
                  (res_status r = 200 \<or> res_status r = 405)"
    by (simp add: h method_not_allowed_def)
  then show ?thesis using a h by blast
qed

theorem missing_action_is_status_witness:
  "req_method (get_request []) \<noteq> ''OPTIONS'' \<and>
   \<not> q_truthy (map_of (req_query (get_request [])) ''action'') \<and>
   requested_action (get_request []) = QStr ''status'' \<and>
   handler (store_lib env_db) env_db (get_request []) new_response world0
     = handleStatus (store_lib env_db) env_db (get_request []) (cors new_response) world0 \<and>
   handler (store_lib env_db) env_db (get_request []) new_response world0
     = (Inr (json_reply (cors new_response) 200 (unauthenticated None)), world0)"
proof -
  have m: "req_method (get_request []) \<noteq> ''OPTIONS''" by (simp add: get_request_def)
  have q: "\<not> q_truthy (map_of (req_query (get_request [])) ''action'')"
    by (simp add: get_request_def q_truthy_def)
  have s: "handleStatus (store_lib env_db) env_db (get_request []) (cors new_response) world0
            = (Inr (json_reply (cors new_response) 200 (unauthenticated None)), world0)"
    by (simp add: handleStatus_def env_db_def truthy_def store_lib_def
        lib_getAuthenticatedUser_def get_request_def)
  show ?thesis
    using missing_action_is_status [OF m q, of "store_lib env_db" env_db new_response world0] m q s
    by (simp add: get_request_def)
qed

text \<open>
  Claim C9, as amended. For a request that is not an OPTIONS preflight: an \<open>action\<close> that
  is present and not the empty string is the action the switch sees; if that action is
  none of \<open>signin\<close>, \<open>signout\<close>, \<open>status\<close>, \<open>callback\<close> the answer is 400; \<open>signin\<close>,
  \<open>status\<close> and \<open>callback\<close> with a method other than GET, and \<open>signout\<close> with a method
  other than POST, are answered with 405.
\<close>

theorem unknown_action_400_wrong_method_405:
  assumes "req_method req \<noteq> ''OPTIONS''"
  shows "(q_truthy (map_of (req_query req) ''action'') \<longrightarrow>
            map_of (req_query req) ''action'' = Some (requested_action req)) \<and>
         (requested_action req \<notin> {QStr ''signin'', QStr ''signout'', QStr ''status'', QStr ''callback''}
            \<longrightarrow> handler lib env req res w
                  = (Inr (unknown_action (cors res) (requested_action req)), w)) \<and>
         (requested_action req \<in> {QStr ''signin'', QStr ''status'', QStr ''callback''} \<and>
          req_method req \<noteq> ''GET''
            \<longrightarrow> handler lib env req res w = (Inr (method_not_allowed (cors res)), w)) \<and>
         (requested_action req = QStr ''signout'' \<and> req_method req \<noteq> ''POST''
            \<longrightarrow> handler lib env req res w = (Inr (method_not_allowed (cors res)), w)) \<and>
         res_status (unknown_action (cors res) (requested_action req)) = 400 \<and>
         res_status (method_not_allowed (cors res)) = 405"
proof -
  have a: "q_truthy (map_of (req_query req) ''action'') \<longrightarrow>
            map_of (req_query req) ''action'' = Some (requested_action req)"
    by (simp add: requested_action_def q_truthy_def split: option.splits)
  have b: "requested_action req \<notin> {QStr ''signin'', QStr ''signout'', QStr ''status'', QStr ''callback''}
            \<longrightarrow> handler lib env req res w
                  = (Inr (unknown_action (cors res) (requested_action req)), w)"
    using assms by (simp add: handler_def Let_def)
  have c: "requested_action req \<in> {QStr ''signin'', QStr ''status'', QStr ''callback''} \<and>
          req_method req \<noteq> ''GET''
            \<longrightarrow> handler lib env req res w = (Inr (method_not_allowed (cors res)), w)"
    using assms by (auto simp: handler_def Let_def)
  have d: "requested_action req = QStr ''signout'' \<and> req_method req \<noteq> ''POST''
            \<longrightarrow> handler lib env req res w = (Inr (method_not_allowed (cors res)), w)"
    using assms by (simp add: handler_def Let_def)
  show ?thesis using a b c d by (simp add: unknown_action_def method_not_allowed_def)
qed

lemma action_bogus: "requested_action (get_request [(''action'', QStr ''bogus'')]) = QStr ''bogus''"
  by (simp add: requested_action_def get_request_def q_truthy_def)

lemma action_post_callback: "requested_action post_callback = QStr ''callback''"
  by (simp add: requested_action_def post_callback_def q_truthy_def)

theorem unknown_action_400_wrong_method_405_witness:
  "req_method (get_request [(''action'', QStr ''bogus'')]) \<noteq> ''OPTIONS'' \<and>
   req_method post_callback \<noteq> ''OPTIONS'' \<and>
   handler (store_lib env_db) env_db (get_request [(''action'', QStr ''bogus'')]) new_response world0
     = (Inr (unknown_action (cors new_response) (QStr ''bogus'')), world0) \<and>
   res_status (unknown_action (cors new_response) (QStr ''bogus'')) = 400 \<and>
   handler (store_lib env_db) env_db post_callback new_response world0
     = (Inr (method_not_allowed (cors new_response)), world0) \<and>
   res_status (method_not_allowed (cors new_response)) = 405"
proof -
  have m1: "req_method (get_request [(''action'', QStr ''bogus'')]) \<noteq> ''OPTIONS''"
    by (simp add: get_request_def)
  have m2: "req_method post_callback \<noteq> ''OPTIONS''" "req_method post_callback \<noteq> ''GET''"
    by (simp_all add: post_callback_def)
  show ?thesis
    using unknown_action_400_wrong_method_405 [OF m1, of "store_lib env_db" env_db new_response world0]
      unknown_action_400_wrong_method_405 [OF m2(1), of "store_lib env_db" env_db new_response world0]
      m1 m2
    by (simp add: action_bogus action_post_callback)
qed

text \<open>
  The claim as stated fails on an OPTIONS request, which is answered with 200 whatever
  its action, and on the empty action, which is routed as \<open>status\<close>.
\<close>

theorem unknown_action_not_always_400:
  "map_of (req_query options_bogus) ''action'' = Some (QStr ''bogus'') \<and>
   handler (store_lib env_db) env_db options_bogus new_response world0
     = (Inr (end_reply (cors new_response) 200), world0) \<and>
   res_status (end_reply (cors new_response) 200) = 200 \<and>
   map_of (req_query (get_request [(''action'', QStr [])])) ''action'' = Some (QStr []) \<and>
   handler (store_lib env_db) env_db (get_request [(''action'', QStr [])]) new_response world0
     = (Inr (json_reply (cors new_response) 200 (unauthenticated None)), world0) \<and>
   res_status (json_reply (cors new_response) 200 (unauthenticated None)) = 200"
  by (simp add: options_bogus_def handler_def Let_def end_reply_def get_request_def
      requested_action_def q_truthy_def handleStatus_def env_db_def truthy_def store_lib_def
      lib_getAuthenticatedUser_def)

section \<open>The status action\<close>



section \<open>The callback action\<close>

text \<open>
  Claim C4, as amended. When the \<open>error\<close> parameter of the query is truthy (a non-empty
  string, or a repeated key), \<open>handleCallback\<close> answers with a 302 redirect to
  \<open>/?error=\<close> followed by the encoded value, and the world is the one it started in. The
  answer is the same for every implementation of the collaborators, so none of them is
  invoked: no code exchange, no user upsert, no session. (Should the value hold a lone
  surrogate, which no decoded query does, the encoding throws inside the \<open>try\<close> and the
  redirect carries \<open>URI%20malformed\<close> instead.)
\<close>

theorem provider_error_redirects_without_exchange:
  assumes "q_truthy (map_of (req_query req) ''error'')"
  shows "\<exists>reason encoded. map_of (req_query req) ''error'' = Some reason \<and>
           encoded = (if lone_surrogate (js_String reason) then ''URI%20malformed''
                      else percentEncode (js_String reason)) \<and>
           handleCallback lib req res w = (Inr (redirect res 302 (''/?error='' @ encoded)), w) \<and>
           res_status (redirect res 302 (''/?error='' @ encoded)) = 302 \<and>
           location (redirect res 302 (''/?error='' @ encoded)) = Some (''/?error='' @ encoded)"
proof -
  obtain reason where r: "map_of (req_query req) ''error'' = Some reason"
    using assms by (cases "map_of (req_query req) ''error''") (simp_all add: q_truthy_def)
  let ?encoded = "if lone_surrogate (js_String reason) then ''URI%20malformed''
                  else percentEncode (js_String reason)"
  have "handleCallback lib req res w = (Inr (redirect res 302 (''/?error='' @ ?encoded)), w)"
    using assms r
    by (simp add: handleCallback_def Let_def encodeURIComponent_def catch_malformed)
  then show ?thesis using r by simp
qed

theorem provider_error_redirects_without_exchange_witness:
  "q_truthy (map_of (req_query denied_request) ''error'') \<and>
   handleCallback (store_lib env_db) denied_request new_response world0
     = (Inr (redirect new_response 302 ''/?error=access_denied''), world0) \<and>
   exchanged world0 = [] \<and> db world0 = db_alice"
proof -
  have a: "q_truthy (map_of (req_query denied_request) ''error'')"
    by (simp add: denied_request_def get_request_def q_truthy_def)
  have b: "map_of (req_query denied_request) ''error'' = Some (QStr ''access_denied'')"
    by (simp add: denied_request_def get_request_def)
  show ?thesis
    using provider_error_redirects_without_exchange [OF a, of "store_lib env_db" new_response world0]
      a b
    by (simp add: js_String_def percentEncode_def uriUnreserved_def world0_def)
qed

lemma exchange_abc:
  "lib_getGoogleUserInfo ''abc'' world0 = (Inr with_email, world0\<lparr>exchanged := [''abc'']\<rparr>)"
  by (simp add: lib_getGoogleUserInfo_def world0_def)

lemma session_abc:
  "lib_createUserSession env_db ''g-1'' ''Alice'' ''alice@example.org'' (world0\<lparr>exchanged := [''abc'']\<rparr>)
     = (Inr ''tok-1'',
        world0\<lparr>exchanged := [''abc''],
               db := \<lparr>users = [alice\<lparr>u_updated_at := 100\<rparr>], sessions = [session1]\<rparr>\<rparr>)"
  using configured_env_db not_null_env_db
  by (simp add: lib_createUserSession_def on_db_def world0_def createUser_def ensureDatabase_def
      db_alice_def alice_def on_conflict_update_def or_null_def truthy_def createSession_def
      session1_def Let_def)

text \<open>
  The claim as stated fails when the \<open>error\<close> parameter is present and empty: the handler
  treats it as absent, exchanges the code and creates the session.
\<close>

theorem empty_error_reaches_exchange:
  "map_of (req_query empty_error_request) ''error'' = Some (QStr []) \<and>
   handleCallback (store_lib env_db) empty_error_request new_response world0
     = (Inr (redirect (setHeader ''Set-Cookie'' ''session=tok-1; HttpOnly'' new_response) 302 ''/upload''),
        world0\<lparr>exchanged := [''abc''],
               db := \<lparr>users = [alice\<lparr>u_updated_at := 100\<rparr>], sessions = [session1]\<rparr>\<rparr>)"
proof -
  have q: "map_of (req_query empty_error_request) ''error'' = Some (QStr [])"
    "map_of (req_query empty_error_request) ''code'' = Some (QStr ''abc'')"
    "map_of (req_query empty_error_request) ''state'' = None"
    by (simp_all add: empty_error_request_def get_request_def)
  have l: "getGoogleUserInfo (store_lib env_db) = lib_getGoogleUserInfo"
    "createUserSession (store_lib env_db) = lib_createUserSession env_db"
    "setSessionCookie (store_lib env_db) = lib_setSessionCookie"
    "verifyStateToken (store_lib env_db) = lib_verifyStateToken"
    by (simp_all add: store_lib_def)
  show ?thesis
    by (simp add: q handleCallback_def Let_def q_truthy_def l exchange_abc session_abc
        with_email_def truthy_def lib_setSessionCookie_def lib_verifyStateToken_def js_or_def)
qed

text \<open>
  Claim C5. When the query carries no provider error, the code is a non-empty string,
  the code exchange returns an identity and that identity's email is missing or empty,
  \<open>handleCallback\<close> answers with a 302 redirect to \<open>/?error=no_email\<close>, and the world is
  the one the code exchange left: \<open>createUserSession\<close> is not invoked, whatever it is, so
  no user row is created or updated and no session row is created. Whatever part of the
  world the code exchange leaves alone (\<open>store_of\<close>, the tables for one), the callback
  leaves alone.
\<close>

theorem no_email_redirect_store_untouched:
  assumes "\<not> q_truthy (map_of (req_query req) ''error'')"
    and "map_of (req_query req) ''code'' = Some (QStr c)" and "c \<noteq> []"
    and "getGoogleUserInfo lib c w = (Inr googleUser, w1)"
    and "\<not> truthy (g_email googleUser)"
  shows "handleCallback lib req res w = (Inr (redirect res 302 ''/?error=no_email''), w1) \<and>
         res_status (redirect res 302 ''/?error=no_email'') = 302 \<and>
         location (redirect res 302 ''/?error=no_email'') = Some ''/?error=no_email'' \<and>
         (store_of w1 = store_of w \<longrightarrow>
            store_of (snd (handleCallback lib req res w)) = store_of w)"
  using assms by (simp add: handleCallback_def Let_def q_truthy_def)

theorem no_email_redirect_store_untouched_witness:
  "\<not> q_truthy (map_of (req_query no_email_request) ''error'') \<and>
   map_of (req_query no_email_request) ''code'' = Some (QStr ''xyz'') \<and> ''xyz'' \<noteq> [] \<and>
   getGoogleUserInfo (store_lib env_db) ''xyz'' world0
     = (Inr without_email, world0\<lparr>exchanged := [''xyz'']\<rparr>) \<and>
   \<not> truthy (g_email without_email) \<and>
   handleCallback (store_lib env_db) no_email_request new_response world0
     = (Inr (redirect new_response 302 ''/?error=no_email''), world0\<lparr>exchanged := [''xyz'']\<rparr>) \<and>
   db (world0\<lparr>exchanged := [''xyz'']\<rparr>) = db world0 \<and>
   db (snd (handleCallback (store_lib env_db) no_email_request new_response world0)) = db world0"
proof -
  have a: "\<not> q_truthy (map_of (req_query no_email_request) ''error'')"
    by (simp add: no_email_request_def get_request_def q_truthy_def)
  have b: "map_of (req_query no_email_request) ''code'' = Some (QStr ''xyz'')"
    by (simp add: no_email_request_def get_request_def)
  have c: "''xyz'' \<noteq> []" by simp
  have d: "getGoogleUserInfo (store_lib env_db) ''xyz'' world0
             = (Inr without_email, world0\<lparr>exchanged := [''xyz'']\<rparr>)"
    by (simp add: store_lib_def lib_getGoogleUserInfo_def world0_def)
  have e: "\<not> truthy (g_email without_email)" by (simp add: without_email_def truthy_def)
  show ?thesis
    using no_email_redirect_store_untouched [OF a b c d e, of new_response db] a b d e by simp
qed

lemma encode_malformed_text: "percentEncode ''URI malformed'' = ''URI%20malformed''"
  by (simp add: percentEncode_def uriUnreserved_def pctEncode_def hexDigit_def)

lemma catch_outcome:
  "(\<exists>r. callback_catch rs e = Inr r \<and> res_status r = 302 \<and>
        location r = Some (''/?error='' @ percentEncode (error_message e))) \<or>
   (callback_catch rs e = Inl uri_malformed \<and> lone_surrogate (error_message e))"
  by (simp add: callback_catch_def encodeURIComponent_def)

text \<open>
  Every outcome of \<open>handleCallback\<close>: a 302 redirect, to \<open>/?error=\<close> followed by an encoded
  reason unless every step succeeded, or a rejection with the URIError of the \<open>catch\<close>
  block.
\<close>

lemma handleCallback_outcomes:
  "(\<exists>r w'. handleCallback lib req res w = (Inr r, w') \<and> res_status r = 302 \<and>
     ((\<exists>reason. location r = Some (''/?error='' @ percentEncode reason)) \<or>
      (\<exists>c googleUser email sessionToken res' stateData w1 w2 w3.
          \<not> q_truthy (map_of (req_query req) ''error'') \<and>
          map_of (req_query req) ''code'' = Some (QStr c) \<and> c \<noteq> [] \<and>
          getGoogleUserInfo lib c w = (Inr googleUser, w1) \<and>
          g_email googleUser = Some email \<and> email \<noteq> [] \<and>
          createUserSession lib (g_id googleUser) (g_name googleUser) email w1
            = (Inr sessionToken, w2) \<and>
          setSessionCookie lib res sessionToken w2 = (Inr res', w3) \<and>
          verifyStateToken lib (map_of (req_query req) ''state'') w3 = (Inr stateData, w') \<and>
          r = redirect res' 302 (js_or stateData ''/upload'')))) \<or>
   (\<exists>w'. handleCallback lib req res w = (Inl uri_malformed, w'))"
  (is "?L \<or> ?R")
proof -
  let ?E = "\<lambda>r. \<exists>reason. location r = Some (''/?error='' @ percentEncode reason)"
  have page: "\<And>r w'. handleCallback lib req res w = (Inr r, w') \<Longrightarrow> res_status r = 302
                 \<Longrightarrow> ?E r \<Longrightarrow> ?L"
    by blast
  have enc: "\<And>rs x. ?E (redirect rs 302 (''/?error='' @ percentEncode x))" by auto
  have thrown: "\<And>rs e w1. handleCallback lib req res w = (callback_catch rs e, w1) \<Longrightarrow> ?L \<or> ?R"
  proof -
    fix rs e w1
    assume h: "handleCallback lib req res w = (callback_catch rs e, w1)"
    from catch_outcome [of rs e] show "?L \<or> ?R"
    proof
      assume "\<exists>r. callback_catch rs e = Inr r \<and> res_status r = 302 \<and>
                location r = Some (''/?error='' @ percentEncode (error_message e))"
      then obtain r where r: "callback_catch rs e = Inr r" "res_status r = 302"
        "location r = Some (''/?error='' @ percentEncode (error_message e))" by blast
      have "?E r" using r(3) by blast
      then have ?L using h r(1,2) page by simp
      then show ?thesis ..
    next
      assume "callback_catch rs e = Inl uri_malformed \<and> lone_surrogate (error_message e)"
      then have ?R using h by simp
      then show ?thesis ..
    qed
  qed
  show ?thesis
  proof (cases "q_truthy (map_of (req_query req) ''error'')")
    case True
    then obtain reason where r: "map_of (req_query req) ''error'' = Some reason"
      by (cases "map_of (req_query req) ''error''") (simp_all add: q_truthy_def)
    let ?encoded = "if lone_surrogate (js_String reason) then percentEncode ''URI malformed''
                    else percentEncode (js_String reason)"
    have "handleCallback lib req res w = (Inr (redirect res 302 (''/?error='' @ ?encoded)), w)"
      using True r
      by (simp add: handleCallback_def Let_def encodeURIComponent_def catch_malformed
          encode_malformed_text)
    moreover have "?E (redirect res 302 (''/?error='' @ ?encoded))"
      using enc [of res "''URI malformed''"] enc [of res "js_String reason"] by simp
    ultimately have ?L using page by simp
    then show ?thesis ..
  next
    case noerr: False
    show ?thesis
    proof (cases "\<exists>c. map_of (req_query req) ''code'' = Some (QStr c) \<and> c \<noteq> []")
      case False
      then have "handleCallback lib req res w
                   = (Inr (redirect res 302 (''/?error='' @ percentEncode ''missing_code'')), w)"
        using noerr
        by (auto simp: handleCallback_def Let_def q_truthy_def encode_codes
            split: option.splits qval.splits)
      then have ?L using page enc by simp
      then show ?thesis ..
    next
      case True
      then obtain c where c: "map_of (req_query req) ''code'' = Some (QStr c)" "c \<noteq> []" by blast
      obtain x w1 where g: "getGoogleUserInfo lib c w = (x, w1)"
        by (cases "getGoogleUserInfo lib c w")
      show ?thesis
      proof (cases x)
        case (Inl e)
        then have "handleCallback lib req res w = (callback_catch res e, w1)"
          using noerr c g by (simp add: handleCallback_def Let_def q_truthy_def)
        then show ?thesis by (rule thrown)
      next
        case (Inr googleUser)
        show ?thesis
        proof (cases "truthy (g_email googleUser)")
          case False
          then have "handleCallback lib req res w
                   = (Inr (redirect res 302 (''/?error='' @ percentEncode ''no_email'')), w1)"
            using noerr c g Inr
            by (simp add: handleCallback_def Let_def q_truthy_def encode_codes)
          then have ?L using page enc by simp
          then show ?thesis ..
        next
          case True
          then obtain email where em: "g_email googleUser = Some email" "email \<noteq> []"
            by (cases "g_email googleUser") (simp_all add: truthy_def)
          obtain y w2 where cs:
            "createUserSession lib (g_id googleUser) (g_name googleUser) email w1 = (y, w2)"
            by (cases "createUserSession lib (g_id googleUser) (g_name googleUser) email w1")
          show ?thesis
          proof (cases y)
            case (Inl e)
            then have "handleCallback lib req res w = (callback_catch res e, w2)"
              using noerr c g Inr True em cs by (simp add: handleCallback_def Let_def q_truthy_def)
            then show ?thesis by (rule thrown)
          next
            case tok: (Inr sessionToken)
            obtain z w3 where sc: "setSessionCookie lib res sessionToken w2 = (z, w3)"
              by (cases "setSessionCookie lib res sessionToken w2")
            show ?thesis
            proof (cases z)
              case (Inl e)
              then have "handleCallback lib req res w = (callback_catch res e, w3)"
                using noerr c g Inr True em cs tok sc
                by (simp add: handleCallback_def Let_def q_truthy_def)
              then show ?thesis by (rule thrown)
            next
              case res': (Inr res')
              obtain v w4 where vs:
                "verifyStateToken lib (map_of (req_query req) ''state'') w3 = (v, w4)"
                by (cases "verifyStateToken lib (map_of (req_query req) ''state'') w3")
              show ?thesis
              proof (cases v)
                case (Inl e)
                then have "handleCallback lib req res w = (callback_catch res' e, w4)"
                  using noerr c g Inr True em cs tok sc res' vs
                  by (simp add: handleCallback_def Let_def q_truthy_def)
                then show ?thesis by (rule thrown)
              next
                case sd: (Inr stateData)
                have "handleCallback lib req res w
                        = (Inr (redirect res' 302 (js_or stateData ''/upload'')), w4)"
                  using noerr c g Inr True em cs tok sc res' vs sd
                  by (simp add: handleCallback_def Let_def q_truthy_def)
                then have ?L using noerr c g Inr em cs tok sc res' vs sd by simp
                then show ?thesis ..
              qed
            qed
          qed
        qed
      qed
    qed
  qed
qed

text \<open>
  Claim C6 does not hold of the code. A callback request with a code, whose exchange
  fails with an error message that holds a lone surrogate: the \<open>catch\<close> block of
  \<open>handleCallback\<close> throws in \<open>encodeURIComponent(errorMessage)\<close>, the handler rejects, and
  \<open>handler\<close>, which returns it without \<open>await\<close>, rejects with it: no 302 redirect to an
  error page is sent.
\<close>

theorem callback_rejects_on_unencodable_message:
  "lone_surrogate surrogate_message \<and>
   getGoogleUserInfo garbled_lib ''abc'' world0
     = (Inl (JsError surrogate_message), world0\<lparr>exchanged := [''abc'']\<rparr>) \<and>
   handleCallback garbled_lib accepted_request new_response world0
     = (Inl uri_malformed, world0\<lparr>exchanged := [''abc'']\<rparr>) \<and>
   handler garbled_lib env_db accepted_request new_response world0
     = (Inl uri_malformed, world0\<lparr>exchanged := [''abc'']\<rparr>)"
proof -
  have s: "lone_surrogate surrogate_message" by (simp add: surrogate_message_def)
  have q: "\<not> q_truthy (map_of (req_query accepted_request) ''error'')"
    "map_of (req_query accepted_request) ''code'' = Some (QStr ''abc'')"
    "req_method accepted_request = ''GET''"
    "requested_action accepted_request = QStr ''callback''"
    by (simp_all add: accepted_request_def get_request_def q_truthy_def requested_action_def)
  have x: "getGoogleUserInfo garbled_lib ''abc'' world0
     = (Inl (JsError surrogate_message), world0\<lparr>exchanged := [''abc'']\<rparr>)"
    by (simp add: garbled_lib_def garbled_exchange_def world0_def)
  have c: "\<And>rs. callback_catch rs (JsError surrogate_message) = Inl uri_malformed"
    using s by (simp add: callback_catch_def encodeURIComponent_def error_message_def)
  have h: "\<And>rs. handleCallback garbled_lib accepted_request rs world0
     = (Inl uri_malformed, world0\<lparr>exchanged := [''abc'']\<rparr>)"
    using q(1,2) x c by (simp add: handleCallback_def Let_def q_truthy_def)
  have "handler garbled_lib env_db accepted_request new_response world0
     = (Inl uri_malformed, world0\<lparr>exchanged := [''abc'']\<rparr>)"
    using q(3,4) h by (simp add: handler_def Let_def)
  then show ?thesis using s x h by simp
qed

section \<open>The sign-out action\<close>











end
